theory Spec2Isabelle
  imports Main
begin

section \<open>Data model\<close>

text \<open>
  The payment status enum \<^verbatim>\<open>PaymentStatus\<close> lives in \<^verbatim>\<open>types/payment.types\<close>. Its members
  are the ones the services and the Payment schema name (\<^verbatim>\<open>PaymentStatus.PENDING\<close>,
  \<^verbatim>\<open>SETTLEMENT\<close>, \<^verbatim>\<open>CAPTURE\<close>, \<^verbatim>\<open>CANCEL\<close>, \<^verbatim>\<open>EXPIRE\<close>, \<^verbatim>\<open>REFUND\<close>,
  \<^verbatim>\<open>PARTIAL_REFUND\<close>, \<^verbatim>\<open>COMPLETED\<close>, \<^verbatim>\<open>FAILED\<close>) together with \<^verbatim>\<open>DENY\<close> of the
  mapping table.
\<close>

datatype PaymentStatus =
    PENDING | SETTLEMENT | CAPTURE | DENY | CANCEL | EXPIRE
  | REFUND | PARTIAL_REFUND | FAILED | COMPLETED

text \<open>
  Enrollment status is the string union
  \<^verbatim>\<open>'pending_payment' | 'active' | 'completed' | 'cancelled'\<close> of the enrollment service.
\<close>

datatype EnrollmentStatus = pending_payment | active | completed | cancelled

text \<open>
  The Payment document of \<^verbatim>\<open>models/Payment.ts\<close>. Object ids are strings, dates are
  milliseconds since the epoch, amounts are whole currency units. The document's position in
  the collection stands for its \<^verbatim>\<open>_id\<close>.
\<close>

record payment =
  transactionId :: string
  orderId :: string
  userId :: string
  enrollmentId :: string
  amount :: int
  status :: PaymentStatus
  paymentMethod :: string
  midtransToken :: "string option"
  redirectUrl :: "string option"
  createdAt :: nat
  paidAt :: "nat option"

text \<open>
  The Enrollment document: the fields the enrollment service writes when it creates one
  (\<^verbatim>\<open>studentId\<close>, \<^verbatim>\<open>courseId\<close>, \<^verbatim>\<open>status\<close>, \<^verbatim>\<open>progress\<close>, \<^verbatim>\<open>enrolledAt\<close>).
\<close>

record enrollment =
  studentId :: string
  courseId :: string
  enrollment_status :: EnrollmentStatus
  progress :: nat
  enrolledAt :: nat

text \<open>Errors thrown by the payment service, as values.\<close>

datatype error =
    ValidationError string
  | NotFoundError string
  | GatewayError string
  | DuplicateKeyError
  | StoreError

section \<open>Status mapper\<close>

text \<open>
  Modelled from the spec: \<^verbatim>\<open>mapMidtransStatus\<close> of \<^verbatim>\<open>utils/payment-validator\<close>, which is
  imported by the payment service but is not among the source files. The table of the
  specification is followed row by row; for \<^verbatim>\<open>capture\<close> with a fraud status other than
  \<^verbatim>\<open>accept\<close> the specification says "treated as still pending", and every status outside
  the table is \<^verbatim>\<open>FAILED\<close>.
\<close>

fun mapMidtransStatus :: "string \<Rightarrow> string option \<Rightarrow> PaymentStatus" where
  "mapMidtransStatus gatewayStatus fraudStatus =
     (if gatewayStatus = ''capture'' then
        (if fraudStatus = Some ''accept'' then CAPTURE else PENDING)
      else if gatewayStatus = ''settlement'' then SETTLEMENT
      else if gatewayStatus = ''pending'' then PENDING
      else if gatewayStatus = ''deny'' then DENY
      else if gatewayStatus = ''cancel'' then CANCEL
      else if gatewayStatus = ''expire'' then EXPIRE
      else if gatewayStatus = ''refund'' then REFUND
      else if gatewayStatus = ''partial_refund'' then PARTIAL_REFUND
      else FAILED)"

declare mapMidtransStatus.simps [simp del]

section \<open>Store, gateway and faults\<close>

text \<open>
  Calls to the payment gateway (\<^verbatim>\<open>snapClient\<close>, \<^verbatim>\<open>coreApi.transaction\<close>) are recorded in
  the order in which they are made. The gateway is outside the database, so a database
  rollback does not remove a recorded call.
\<close>

datatype gateway_call =
    GwCreateTransaction string int
  | GwStatus string
  | GwCancel string
  | GwExpire string
  | GwRefund string "string option" "int option" "string option"

text \<open>
  The state the service works on: the Payment collection (in natural order), the Enrollment
  collection (by \<^verbatim>\<open>_id\<close>) and the gateway calls made so far.
\<close>

record world =
  payments :: "payment list"
  enrollments :: "string \<rightharpoonup> enrollment"
  gateway_calls :: "gateway_call list"

text \<open>
  Every awaited database operation may throw. A predicate on the kind of operation says
  which ones do in a given run.
\<close>

datatype io_op =
    FindPayment | SavePayment | UpdatePayment
  | FindEnrollment | SaveEnrollment | UpdateEnrollment
  | CommitTransaction

definition no_fault :: "io_op \<Rightarrow> bool" where
  "no_fault op = False"

text \<open>JavaScript's \<^verbatim>\<open>a || b\<close> on an optional string: absent and empty are both falsy.\<close>

definition str_or :: "string option \<Rightarrow> string \<Rightarrow> string" where
  "str_or a b = (case a of None \<Rightarrow> b | Some s \<Rightarrow> if s = [] then b else s)"

text \<open>
  \<^verbatim>\<open>Model.findOneAndUpdate(filter, update)\<close>: the first document matching the filter is
  updated; with no match nothing is written and no error is raised.
\<close>

fun findOneAndUpdate :: "('a \<Rightarrow> bool) \<Rightarrow> ('a \<Rightarrow> 'a) \<Rightarrow> 'a list \<Rightarrow> 'a list" where
  "findOneAndUpdate P f [] = []"
| "findOneAndUpdate P f (x # xs) =
     (if P x then f x # xs else x # findOneAndUpdate P f xs)"

text \<open>
  \<^verbatim>\<open>doc.save()\<close> for a document obtained by \<^verbatim>\<open>findOne(filter)\<close>: the document found (the
  first one matching the filter) is replaced by its modified copy.
\<close>

definition saveDocument :: "('a \<Rightarrow> bool) \<Rightarrow> 'a \<Rightarrow> 'a list \<Rightarrow> 'a list" where
  "saveDocument P d xs = findOneAndUpdate P (\<lambda>_. d) xs"

text \<open>\<^verbatim>\<open>Enrollment.findByIdAndUpdate(id, update)\<close>: no document, no write, no error.\<close>

definition findByIdAndUpdate ::
  "string \<Rightarrow> (enrollment \<Rightarrow> enrollment) \<Rightarrow> (string \<rightharpoonup> enrollment) \<Rightarrow> (string \<rightharpoonup> enrollment)" where
  "findByIdAndUpdate i f m = (case m i of None \<Rightarrow> m | Some e \<Rightarrow> m(i \<mapsto> f e))"

text \<open>
  \<^verbatim>\<open>session.abortTransaction()\<close>: the writes staged in the session are dropped, so both
  collections are as they were when the session started.
\<close>

definition abortTransaction :: "world \<Rightarrow> world \<Rightarrow> world" where
  "abortTransaction w0 w' = w'\<lparr>payments := payments w0, enrollments := enrollments w0\<rparr>"

text \<open>\<^verbatim>\<open>session.commitTransaction()\<close> followed by the \<^verbatim>\<open>return\<close> of the result.\<close>

definition commitTransaction ::
  "(io_op \<Rightarrow> bool) \<Rightarrow> world \<Rightarrow> 'r \<Rightarrow> world \<times> (error + 'r)" where
  "commitTransaction fails w r =
     (if fails CommitTransaction then (w, Inl StoreError) else (w, Inr r))"

text \<open>Decimal rendering of a number inside a template string.\<close>

fun string_of_nat :: "nat \<Rightarrow> string" where
  "string_of_nat n =
     (if n < 10 then [''0123456789'' ! n]
      else string_of_nat (n div 10) @ [''0123456789'' ! (n mod 10)])"

declare string_of_nat.simps [simp del]

section \<open>Gateway notifications\<close>

text \<open>
  The fields shared by the webhook payload and by the gateway's answer to a status query.
  \<^verbatim>\<open>settlement_time\<close> is kept as the time it parses to.
\<close>

record notification =
  transaction_id :: "string option"
  transaction_status :: string
  fraud_status :: "string option"
  payment_type :: "string option"

record webhook_payload = notification +
  order_id :: "string option"

record status_result = notification +
  gross_amount :: string
  settlement_time :: "nat option"

record webhook_result =
  wr_success :: bool
  wr_status :: PaymentStatus

text \<open>
  The answer of \<^verbatim>\<open>verifyPayment\<close>; \<^verbatim>\<open>vp_amount\<close> carries \<^verbatim>\<open>gross_amount\<close> as the gateway
  sent it.
\<close>

record verify_response =
  vp_success :: bool
  vp_transactionId :: "string option"
  vp_status :: PaymentStatus
  vp_paidAt :: "nat option"
  vp_paymentMethod :: "string option"
  vp_amount :: string

section \<open>processWebhook\<close>

text \<open>
  The body of the \<^verbatim>\<open>try\<close> block of \<^verbatim>\<open>PaymentService.processWebhook\<close>. All reads and
  writes go through the session; the world returned with an error holds the writes staged
  before the throw.
\<close>

definition webhook_filter :: "webhook_payload \<Rightarrow> payment \<Rightarrow> bool" where
  "webhook_filter payload p \<longleftrightarrow>
     Some (orderId p) = order_id payload \<or> Some (transactionId p) = transaction_id payload"

definition processWebhook_try ::
  "(io_op \<Rightarrow> bool) \<Rightarrow> nat \<Rightarrow> webhook_payload \<Rightarrow> world \<Rightarrow> world \<times> (error + webhook_result)" where
  "processWebhook_try fails now payload w =
     (let newStatus = mapMidtransStatus (transaction_status payload) (fraud_status payload);
          res = \<lparr>wr_success = True, wr_status = newStatus\<rparr>
      in
      if fails FindPayment then (w, Inl StoreError)
      else case find (webhook_filter payload) (payments w) of
        None \<Rightarrow>
          (w, Inl (NotFoundError (''Payment not found for Order ID: '' @
                     (case order_id payload of None \<Rightarrow> ''undefined'' | Some s \<Rightarrow> s))))
      | Some found \<Rightarrow>
          if status found = newStatus then commitTransaction fails w res
          else
            let p1 = found\<lparr>status := newStatus,
                            paymentMethod := str_or (payment_type payload) (paymentMethod found)\<rparr>;
                p2 = (if newStatus = SETTLEMENT \<or> newStatus = CAPTURE
                      then p1\<lparr>paidAt := Some now\<rparr> else p1)
            in
            if fails SavePayment then (w, Inl StoreError)
            else
              let w1 = w\<lparr>payments := saveDocument (webhook_filter payload) p2 (payments w)\<rparr>
              in
              if newStatus = SETTLEMENT \<or> newStatus = CAPTURE then
                (if fails FindEnrollment then (w1, Inl StoreError)
                 else case enrollments w1 (enrollmentId p2) of
                   None \<Rightarrow> commitTransaction fails w1 res
                 | Some e \<Rightarrow>
                     if fails SaveEnrollment then (w1, Inl StoreError)
                     else commitTransaction fails
                            (w1\<lparr>enrollments := (enrollments w1)(enrollmentId p2 \<mapsto>
                                   e\<lparr>enrollment_status := active, progress := 0\<rparr>)\<rparr>) res)
              else if newStatus = CANCEL \<or> newStatus = EXPIRE then
                (if fails FindEnrollment then (w1, Inl StoreError)
                 else case enrollments w1 (enrollmentId p2) of
                   None \<Rightarrow> commitTransaction fails w1 res
                 | Some e \<Rightarrow>
                     if enrollment_status e = pending_payment then
                       (if fails SaveEnrollment then (w1, Inl StoreError)
                        else commitTransaction fails
                               (w1\<lparr>enrollments := (enrollments w1)(enrollmentId p2 \<mapsto>
                                      e\<lparr>enrollment_status := cancelled\<rparr>)\<rparr>) res)
                     else commitTransaction fails w1 res)
              else commitTransaction fails w1 res)"

text \<open>
  \<^verbatim>\<open>PaymentService.processWebhook\<close>: the \<^verbatim>\<open>try\<close> block inside a session transaction; the
  \<^verbatim>\<open>catch\<close> block aborts the transaction and rethrows.
\<close>

definition processWebhook ::
  "(io_op \<Rightarrow> bool) \<Rightarrow> nat \<Rightarrow> webhook_payload \<Rightarrow> world \<Rightarrow> world \<times> (error + webhook_result)" where
  "processWebhook fails now payload w =
     (case processWebhook_try fails now payload w of
        (w', Inl e) \<Rightarrow> (abortTransaction w w', Inl e)
      | (w', Inr r) \<Rightarrow> (w', Inr r))"

section \<open>verifyPayment\<close>

text \<open>
  \<^verbatim>\<open>PaymentService.verifyPayment\<close>. There is no session here: each write reaches the
  database when it is awaited, and the \<^verbatim>\<open>catch\<close> block only logs and rethrows. The
  gateway's answer to the status query is the argument \<open>reply\<close>.
\<close>

definition verify_filter :: "string \<Rightarrow> payment \<Rightarrow> bool" where
  "verify_filter tid p \<longleftrightarrow> transactionId p = tid \<or> orderId p = tid"

definition verifyPayment ::
  "(io_op \<Rightarrow> bool) \<Rightarrow> nat \<Rightarrow> (error + status_result) \<Rightarrow> string \<Rightarrow> world
     \<Rightarrow> world \<times> (error + verify_response)" where
  "verifyPayment fails now reply tid w =
     (let w0 = w\<lparr>gateway_calls := gateway_calls w @ [GwStatus tid]\<rparr> in
      case reply of
        Inl e \<Rightarrow> (w0, Inl e)
      | Inr result \<Rightarrow>
          let st = mapMidtransStatus (transaction_status result) (fraud_status result);
              res = \<lparr>vp_success = True,
                     vp_transactionId = transaction_id result,
                     vp_status = st,
                     vp_paidAt = settlement_time result,
                     vp_paymentMethod = payment_type result,
                     vp_amount = gross_amount result\<rparr>
          in
          if fails FindPayment then (w0, Inl StoreError)
          else (case find (verify_filter tid) (payments w0) of
            None \<Rightarrow> (w0, Inr res)
          | Some found \<Rightarrow>
              if status found = st then (w0, Inr res)
              else
                let p1 = found\<lparr>status := st,
                                paymentMethod := str_or (payment_type result) (paymentMethod found)\<rparr>
                in
                if st = SETTLEMENT \<or> st = CAPTURE then
                  (let p2 = p1\<lparr>paidAt := Some (case settlement_time result of
                                                   Some t \<Rightarrow> t | None \<Rightarrow> now)\<rparr>
                   in
                   if fails UpdateEnrollment then (w0, Inl StoreError)
                   else
                     let w1 = w0\<lparr>enrollments :=
                                  findByIdAndUpdate (enrollmentId p2)
                                    (\<lambda>e. e\<lparr>enrollment_status := active, progress := 0\<rparr>)
                                    (enrollments w0)\<rparr>
                     in
                     if fails SavePayment then (w1, Inl StoreError)
                     else (w1\<lparr>payments := saveDocument (verify_filter tid) p2 (payments w1)\<rparr>,
                           Inr res))
                else if st = CANCEL \<or> st = EXPIRE then
                  (if fails UpdateEnrollment then (w0, Inl StoreError)
                   else
                     let w1 = w0\<lparr>enrollments :=
                                  findByIdAndUpdate (enrollmentId p1)
                                    (\<lambda>e. e\<lparr>enrollment_status := cancelled\<rparr>)
                                    (enrollments w0)\<rparr>
                     in
                     if fails SavePayment then (w1, Inl StoreError)
                     else (w1\<lparr>payments := saveDocument (verify_filter tid) p1 (payments w1)\<rparr>,
                           Inr res))
                else
                  (if fails SavePayment then (w0, Inl StoreError)
                   else (w0\<lparr>payments := saveDocument (verify_filter tid) p1 (payments w0)\<rparr>,
                         Inr res))))"

text \<open>
  \<^verbatim>\<open>verifyPayment\<close> called once for each clock reading of the list, one call after the
  other, with the same gateway answer; the state after the last call.
\<close>

fun verifyPayment_repeat ::
  "(io_op \<Rightarrow> bool) \<Rightarrow> (error + status_result) \<Rightarrow> string \<Rightarrow> nat list \<Rightarrow> world \<Rightarrow> world" where
  "verifyPayment_repeat fails reply tid [] w = w"
| "verifyPayment_repeat fails reply tid (now # nows) w =
     verifyPayment_repeat fails reply tid nows (fst (verifyPayment fails now reply tid w))"

section \<open>cancelTransaction, expireTransaction, refundTransaction\<close>

text \<open>
  Each of the three calls the gateway first and then updates the first Payment whose
  \<^verbatim>\<open>transactionId\<close> is the argument. \<open>reply\<close> is the gateway's answer.
\<close>

definition cancelTransaction ::
  "(io_op \<Rightarrow> bool) \<Rightarrow> (error + unit) \<Rightarrow> string \<Rightarrow> world \<Rightarrow> world \<times> (error + unit)" where
  "cancelTransaction fails reply tid w =
     (let w0 = w\<lparr>gateway_calls := gateway_calls w @ [GwCancel tid]\<rparr> in
      case reply of
        Inl e \<Rightarrow> (w0, Inl e)
      | Inr _ \<Rightarrow>
          if fails UpdatePayment then (w0, Inl StoreError)
          else (w0\<lparr>payments := findOneAndUpdate (\<lambda>p. transactionId p = tid)
                                   (\<lambda>p. p\<lparr>status := CANCEL\<rparr>) (payments w0)\<rparr>,
                Inr ()))"

definition expireTransaction ::
  "(io_op \<Rightarrow> bool) \<Rightarrow> (error + unit) \<Rightarrow> string \<Rightarrow> world \<Rightarrow> world \<times> (error + unit)" where
  "expireTransaction fails reply tid w =
     (let w0 = w\<lparr>gateway_calls := gateway_calls w @ [GwExpire tid]\<rparr> in
      case reply of
        Inl e \<Rightarrow> (w0, Inl e)
      | Inr _ \<Rightarrow>
          if fails UpdatePayment then (w0, Inl StoreError)
          else (w0\<lparr>payments := findOneAndUpdate (\<lambda>p. transactionId p = tid)
                                   (\<lambda>p. p\<lparr>status := EXPIRE\<rparr>) (payments w0)\<rparr>,
                Inr ()))"

text \<open>
  In \<^verbatim>\<open>refundTransaction\<close> the optional \<^verbatim>\<open>amount\<close> and \<^verbatim>\<open>reason\<close> are tested for
  truthiness: an amount of 0 and an empty reason count as absent.
\<close>

definition truthy_amount :: "int option \<Rightarrow> bool" where
  "truthy_amount a = (case a of None \<Rightarrow> False | Some n \<Rightarrow> n \<noteq> 0)"

definition truthy_string :: "string option \<Rightarrow> bool" where
  "truthy_string a = (case a of None \<Rightarrow> False | Some s \<Rightarrow> s \<noteq> [])"

definition refundTransaction ::
  "(io_op \<Rightarrow> bool) \<Rightarrow> nat \<Rightarrow> (error + 'r) \<Rightarrow> string \<Rightarrow> int option \<Rightarrow> string option \<Rightarrow> world
     \<Rightarrow> world \<times> (error + 'r)" where
  "refundTransaction fails now reply tid amt reason w =
     (let refund_key = (if truthy_amount amt
                        then Some (''refund-'' @ tid @ ''-'' @ string_of_nat now) else None);
          p_amount = (if truthy_amount amt then amt else None);
          p_reason = (if truthy_string reason then reason else None);
          w0 = w\<lparr>gateway_calls := gateway_calls w @ [GwRefund tid refund_key p_amount p_reason]\<rparr>
      in
      case reply of
        Inl e \<Rightarrow> (w0, Inl e)
      | Inr result \<Rightarrow>
          let newStatus = (if truthy_amount amt then PARTIAL_REFUND else REFUND) in
          if fails UpdatePayment then (w0, Inl StoreError)
          else (w0\<lparr>payments := findOneAndUpdate (\<lambda>p. transactionId p = tid)
                                   (\<lambda>p. p\<lparr>status := newStatus\<rparr>) (payments w0)\<rparr>,
                Inr result))"

section \<open>createTransaction\<close>

text \<open>\<^verbatim>\<open>PaymentService.isPaymentEligible\<close>.\<close>

definition isPaymentEligible :: "int \<Rightarrow> bool" where
  "isPaymentEligible a \<longleftrightarrow> a \<ge> 1000 \<and> a \<le> 999999999"

text \<open>
  The outcome of a validator of \<^verbatim>\<open>utils/payment-validator\<close>: \<^verbatim>\<open>{ valid, errors }\<close> for the
  request validator, \<^verbatim>\<open>{ valid, error }\<close> for the amount validator.
\<close>

record request_validation =
  rv_valid :: bool
  rv_errors :: "string list"

record amount_validation =
  av_valid :: bool
  av_error :: "string option"

text \<open>
  Modelled from the spec: \<^verbatim>\<open>validateAmount\<close> of \<^verbatim>\<open>utils/payment-validator\<close>, which is not
  among the source files. The specification gives the bounds: an amount is accepted when it
  is at least 1000 and at most 999999999, and rejected otherwise. These are the bounds of
  \<^verbatim>\<open>isPaymentEligible\<close>. The specification gives no message, so none is set.
\<close>

definition validateAmount :: "int \<Rightarrow> amount_validation" where
  "validateAmount a = \<lparr>av_valid = (a \<ge> 1000 \<and> a \<le> 999999999), av_error = None\<rparr>"

text \<open>
  The request. The customer details, items, discount and description only travel to the
  gateway; the call recorded for the gateway keeps the order id and the gross amount.
\<close>

record request_metadata =
  md_enrollmentId :: "string option"

record transaction_request =
  rq_userId :: string
  rq_amount :: int
  rq_metadata :: "request_metadata option"

record snap_result =
  token :: string
  redirect_url :: string

record create_payment_response =
  cp_success :: bool
  cp_transactionId :: string
  cp_orderId :: string
  cp_amount :: int
  cp_snapToken :: string
  cp_redirectUrl :: string
  cp_expiresAt :: nat
  cp_message :: string

text \<open>\<^verbatim>\<open>errors.join(', ')\<close>.\<close>

fun join_comma :: "string list \<Rightarrow> string" where
  "join_comma [] = []"
| "join_comma [x] = x"
| "join_comma (x # y # ys) = x @ '', '' @ join_comma (y # ys)"

text \<open>
  Inserting a new Payment document. The schema declares \<^verbatim>\<open>transactionId\<close> and
  \<^verbatim>\<open>orderId\<close> \<^verbatim>\<open>unique: true\<close>: the unique indexes refuse a document that repeats either.
\<close>

definition insertPayment :: "payment \<Rightarrow> payment list \<Rightarrow> error + payment list" where
  "insertPayment p ps =
     (if list_ex (\<lambda>q. transactionId q = transactionId p \<or> orderId q = orderId p) ps
      then Inl DuplicateKeyError else Inr (ps @ [p]))"

text \<open>
  The body of the \<^verbatim>\<open>try\<close> block of \<^verbatim>\<open>PaymentService.createTransaction\<close>. The arguments
  stand for what the environment supplies: \<open>validation\<close> is the outcome of
  \<^verbatim>\<open>validateTransactionRequest(request)\<close> (not among the source files), \<open>uuid\<close> the value of
  \<^verbatim>\<open>uuidv4()\<close>, \<open>now_order\<close> and \<open>now_expiry\<close> the two readings of \<^verbatim>\<open>Date.now()\<close>,
  \<open>now_created\<close> the later \<^verbatim>\<open>new Date()\<close>, and \<open>reply\<close> the gateway's answer. The object
  given to the Payment constructor has a key \<^verbatim>\<open>snapToken\<close>, which the schema does not
  declare, so the stored document keeps the default \<^verbatim>\<open>midtransToken: null\<close>.
\<close>

definition createTransaction_try ::
  "(io_op \<Rightarrow> bool) \<Rightarrow> request_validation \<Rightarrow> string \<Rightarrow> nat \<Rightarrow> nat \<Rightarrow> nat
     \<Rightarrow> (error + snap_result) \<Rightarrow> transaction_request \<Rightarrow> world
     \<Rightarrow> world \<times> (error + create_payment_response)" where
  "createTransaction_try fails validation uuid now_order now_expiry now_created reply request w =
     (if \<not> rv_valid validation then
        (w, Inl (ValidationError (''Validation failed: '' @ join_comma (rv_errors validation))))
      else
        let amountValidation = validateAmount (rq_amount request) in
        if \<not> av_valid amountValidation then
          (w, Inl (ValidationError (str_or (av_error amountValidation) ''Invalid amount'')))
        else
          let tid = uuid;
              oid = rq_userId request @ ''-'' @ string_of_nat now_order;
              expiresAt = now_expiry + 60 * 60 * 1000;
              eid = (case rq_metadata request of None \<Rightarrow> None | Some m \<Rightarrow> md_enrollmentId m)
          in
          if \<not> truthy_string eid then
            (w, Inl (ValidationError ''Enrollment ID is required in metadata''))
          else
            let w0 = w\<lparr>gateway_calls :=
                         gateway_calls w @ [GwCreateTransaction oid (rq_amount request)]\<rparr>
            in
            case reply of
              Inl e \<Rightarrow> (w0, Inl e)
            | Inr midtransResult \<Rightarrow>
                let p = \<lparr>transactionId = tid,
                         orderId = oid,
                         userId = rq_userId request,
                         enrollmentId = the eid,
                         amount = rq_amount request,
                         status = PENDING,
                         paymentMethod = ''unknown'',
                         midtransToken = None,
                         redirectUrl = Some (redirect_url midtransResult),
                         createdAt = now_created,
                         paidAt = None\<rparr>
                in
                if fails SavePayment then (w0, Inl StoreError)
                else (case insertPayment p (payments w0) of
                  Inl e \<Rightarrow> (w0, Inl e)
                | Inr ps \<Rightarrow>
                    commitTransaction fails (w0\<lparr>payments := ps\<rparr>)
                      \<lparr>cp_success = True,
                       cp_transactionId = tid,
                       cp_orderId = oid,
                       cp_amount = rq_amount request,
                       cp_snapToken = token midtransResult,
                       cp_redirectUrl = redirect_url midtransResult,
                       cp_expiresAt = expiresAt,
                       cp_message = ''Payment transaction created successfully''\<rparr>))"

text \<open>
  \<^verbatim>\<open>PaymentService.createTransaction\<close>: the \<^verbatim>\<open>try\<close> block inside a session transaction,
  aborted by the \<^verbatim>\<open>catch\<close> block.
\<close>

definition createTransaction ::
  "(io_op \<Rightarrow> bool) \<Rightarrow> request_validation \<Rightarrow> string \<Rightarrow> nat \<Rightarrow> nat \<Rightarrow> nat
     \<Rightarrow> (error + snap_result) \<Rightarrow> transaction_request \<Rightarrow> world
     \<Rightarrow> world \<times> (error + create_payment_response)" where
  "createTransaction fails validation uuid now_order now_expiry now_created reply request w =
     (case createTransaction_try fails validation uuid now_order now_expiry now_created
             reply request w of
        (w', Inl e) \<Rightarrow> (abortTransaction w w', Inl e)
      | (w', Inr r) \<Rightarrow> (w', Inr r))"

section \<open>Sample data\<close>

text \<open>
  A payment of user \<^verbatim>\<open>U1\<close> for enrollment \<^verbatim>\<open>E1\<close>, the enrollment, a world holding both,
  and a webhook payload for that payment. The concrete runs below start from them.
\<close>

definition sample_payment :: payment where
  "sample_payment =
     \<lparr>transactionId = ''T1'', orderId = ''U1-5'', userId = ''U1'', enrollmentId = ''E1'',
      amount = 150000, status = PENDING, paymentMethod = ''unknown'', midtransToken = None,
      redirectUrl = Some ''https://pay/T1'', createdAt = 5, paidAt = None\<rparr>"

definition sample_enrollment :: "EnrollmentStatus \<Rightarrow> enrollment" where
  "sample_enrollment st =
     \<lparr>studentId = ''U1'', courseId = ''C1'', enrollment_status = st, progress = 40,
      enrolledAt = 1\<rparr>"

definition sample_world :: "PaymentStatus \<Rightarrow> EnrollmentStatus \<Rightarrow> world" where
  "sample_world ps es =
     \<lparr>payments = [sample_payment\<lparr>status := ps\<rparr>],
      enrollments = [''E1'' \<mapsto> sample_enrollment es],
      gateway_calls = []\<rparr>"

definition sample_webhook :: "string \<Rightarrow> webhook_payload" where
  "sample_webhook st =
     \<lparr>transaction_id = Some ''T1'', transaction_status = st, fraud_status = None,
      payment_type = Some ''bank_transfer'', order_id = Some ''U1-5''\<rparr>"

definition sample_status_result :: "string \<Rightarrow> status_result" where
  "sample_status_result st =
     \<lparr>transaction_id = Some ''T1'', transaction_status = st, fraud_status = None,
      payment_type = Some ''bank_transfer'', gross_amount = ''150000.00'',
      settlement_time = None\<rparr>"

definition sample_world_two_payments :: "EnrollmentStatus \<Rightarrow> world" where
  "sample_world_two_payments es =
     \<lparr>payments = [sample_payment\<lparr>transactionId := ''T0'', orderId := ''U1-4'',
                                 status := SETTLEMENT, paidAt := Some 6\<rparr>,
                  sample_payment],
      enrollments = [''E1'' \<mapsto> sample_enrollment es],
      gateway_calls = []\<rparr>"

definition sample_request :: "int \<Rightarrow> transaction_request" where
  "sample_request a =
     \<lparr>rq_userId = ''U1'', rq_amount = a,
      rq_metadata = Some \<lparr>md_enrollmentId = Some ''E1''\<rparr>\<rparr>"

definition sample_validation :: request_validation where
  "sample_validation = \<lparr>rv_valid = True, rv_errors = []\<rparr>"

definition sample_snap_result :: snap_result where
  "sample_snap_result = \<lparr>token = ''tok'', redirect_url = ''https://pay/T2''\<rparr>"

section \<open>Properties of the status mapper\<close>

text \<open>
  C8. The status mapper reproduces the mapping table: \<^verbatim>\<open>settlement\<close> gives SETTLEMENT,
  \<^verbatim>\<open>capture\<close> with fraud status \<^verbatim>\<open>accept\<close> gives CAPTURE, \<^verbatim>\<open>pending\<close> PENDING,
  \<^verbatim>\<open>deny\<close> DENY, \<^verbatim>\<open>cancel\<close> CANCEL, \<^verbatim>\<open>expire\<close> EXPIRE, \<^verbatim>\<open>refund\<close> REFUND,
  \<^verbatim>\<open>partial_refund\<close> PARTIAL_REFUND, whatever the fraud status of these rows is, and every
  gateway status that is not in the table gives FAILED. Being a HOL function, the mapper is
  deterministic and has no effect.
\<close>

theorem mapMidtransStatus_table:
  "mapMidtransStatus ''settlement'' f = SETTLEMENT
   \<and> mapMidtransStatus ''capture'' (Some ''accept'') = CAPTURE
   \<and> mapMidtransStatus ''pending'' f = PENDING
   \<and> mapMidtransStatus ''deny'' f = DENY
   \<and> mapMidtransStatus ''cancel'' f = CANCEL
   \<and> mapMidtransStatus ''expire'' f = EXPIRE
   \<and> mapMidtransStatus ''refund'' f = REFUND
   \<and> mapMidtransStatus ''partial_refund'' f = PARTIAL_REFUND
   \<and> (g \<notin> set [''capture'', ''settlement'', ''pending'', ''deny'', ''cancel'',
                  ''expire'', ''refund'', ''partial_refund'']
        \<longrightarrow> mapMidtransStatus g f = FAILED)"
  by (simp add: mapMidtransStatus.simps)

theorem mapMidtransStatus_table_witness:
  "''unknown_code'' \<notin> set [''capture'', ''settlement'', ''pending'', ''deny'', ''cancel'',
                  ''expire'', ''refund'', ''partial_refund'']
   \<and> mapMidtransStatus ''unknown_code'' None = FAILED
   \<and> mapMidtransStatus ''settlement'' None = SETTLEMENT"
  using mapMidtransStatus_table [of None "''unknown_code''"]
  by (simp add: mapMidtransStatus.simps)

section \<open>Lemmas on the store operations\<close>

lemmas sample_defs = sample_payment_def sample_enrollment_def sample_world_def sample_webhook_def

lemma findOneAndUpdate_no_match:
  "find P xs = None \<Longrightarrow> findOneAndUpdate P f xs = xs"
  by (induction xs) (auto split: if_splits)

lemma find_saveDocument:
  "find P xs = Some x \<Longrightarrow> P d \<Longrightarrow> find P (saveDocument P d xs) = Some d"
  unfolding saveDocument_def by (induction xs) (auto split: if_splits)

lemma abortTransaction_same [simp]: "abortTransaction w w = w"
  by (simp add: abortTransaction_def)

lemma abortTransaction_staged [simp]:
  "abortTransaction w (w\<lparr>payments := ps\<rparr>) = w"
  "abortTransaction w (w\<lparr>payments := ps, enrollments := es\<rparr>) = w"
  by (simp_all add: abortTransaction_def)

lemma webhook_filter_update [simp]:
  "webhook_filter payload (p\<lparr>status := s\<rparr>) = webhook_filter payload p"
  "webhook_filter payload (p\<lparr>paymentMethod := m\<rparr>) = webhook_filter payload p"
  "webhook_filter payload (p\<lparr>paidAt := t\<rparr>) = webhook_filter payload p"
  by (simp_all add: webhook_filter_def)

lemma processWebhook_not_found:
  "find (webhook_filter payload) (payments w) = None \<Longrightarrow>
   processWebhook fails now payload w =
     (w, Inl (if fails FindPayment then StoreError
              else NotFoundError (''Payment not found for Order ID: '' @
                     (case order_id payload of None \<Rightarrow> ''undefined'' | Some s \<Rightarrow> s))))"
  by (simp add: processWebhook_def processWebhook_try_def Let_def)

lemma processWebhook_short_circuit:
  "find (webhook_filter payload) (payments w) = Some p \<Longrightarrow>
   status p = mapMidtransStatus (transaction_status payload) (fraud_status payload) \<Longrightarrow>
   processWebhook fails now payload w =
     (if fails FindPayment \<or> fails CommitTransaction then (w, Inl StoreError)
      else (w, Inr \<lparr>wr_success = True, wr_status = status p\<rparr>))"
  by (simp add: processWebhook_def processWebhook_try_def Let_def commitTransaction_def)

section \<open>Properties of processWebhook\<close>

text \<open>
  C2. processWebhook is idempotent. Delivering the same payload a second time leaves the
  state exactly as the first delivery left it: this holds for the whole state (so for
  Payment.status and Enrollment.status) whatever faults the second delivery meets, and
  without faults the second delivery also returns what the first returned. In particular,
  when the stored Payment.status already equals the mapped status, the call commits and
  returns success, and the state is untouched.
\<close>

theorem processWebhook_idempotent:
  "fst (processWebhook fails2 now2 payload (fst (processWebhook no_fault now1 payload w)))
     = fst (processWebhook no_fault now1 payload w)
   \<and> processWebhook no_fault now2 payload (fst (processWebhook no_fault now1 payload w))
     = processWebhook no_fault now1 payload w
   \<and> (find (webhook_filter payload) (payments w) = Some p
        \<and> status p = mapMidtransStatus (transaction_status payload) (fraud_status payload)
      \<longrightarrow> processWebhook no_fault now payload w
            = (w, Inr \<lparr>wr_success = True, wr_status = status p\<rparr>))"
proof -
  let ?st = "mapMidtransStatus (transaction_status payload) (fraud_status payload)"
  let ?res = "\<lparr>wr_success = True, wr_status = ?st\<rparr>"
  have short: "processWebhook no_fault t payload v = (v, Inr ?res)"
    if "find (webhook_filter payload) (payments v) = Some q" "status q = ?st" for t v q
    using processWebhook_short_circuit [OF that, of no_fault t] that(2)
    by (simp add: no_fault_def)
  have third: "find (webhook_filter payload) (payments w) = Some p \<and> status p = ?st
      \<longrightarrow> processWebhook no_fault now payload w
            = (w, Inr \<lparr>wr_success = True, wr_status = status p\<rparr>)"
    using short by auto
  have "(\<exists>e. processWebhook no_fault now1 payload w = (w, Inl e)
            \<and> find (webhook_filter payload) (payments w) = None)
        \<or> (\<exists>w1 q. processWebhook no_fault now1 payload w = (w1, Inr ?res)
            \<and> find (webhook_filter payload) (payments w1) = Some q \<and> status q = ?st)"
  proof (cases "find (webhook_filter payload) (payments w)")
    case None
    then show ?thesis using processWebhook_not_found [OF None, of no_fault now1] by simp
  next
    case (Some q)
    show ?thesis
    proof (cases "status q = ?st")
      case True
      then show ?thesis using short [OF Some True] Some by auto
    next
      case False
      have "find (webhook_filter payload) (saveDocument (webhook_filter payload) d (payments w)) = Some d"
        if "webhook_filter payload d" for d
        using find_saveDocument [OF Some that] .
      moreover have "webhook_filter payload q"
        using Some by (auto simp: find_Some_iff)
      ultimately show ?thesis using Some False
        unfolding processWebhook_def processWebhook_try_def Let_def commitTransaction_def no_fault_def
        by (auto split: option.splits)
    qed
  qed
  then show ?thesis
  proof (elim disjE exE conjE)
    fix e assume a: "processWebhook no_fault now1 payload w = (w, Inl e)"
      and n: "find (webhook_filter payload) (payments w) = None"
    show ?thesis
      using a third processWebhook_not_found [OF n, of fails2 now2]
        processWebhook_not_found [OF n, of no_fault now2]
        processWebhook_not_found [OF n, of no_fault now1]
      by simp
  next
    fix w1 q assume a: "processWebhook no_fault now1 payload w = (w1, Inr ?res)"
      and f: "find (webhook_filter payload) (payments w1) = Some q" and s: "status q = ?st"
    have "fst (processWebhook fails2 now2 payload w1) = w1"
      using processWebhook_short_circuit [OF f s, of fails2 now2] by simp
    moreover have "processWebhook no_fault now2 payload w1 = (w1, Inr ?res)"
      using short [OF f s] .
    ultimately show ?thesis using a third by simp
  qed
qed


theorem processWebhook_idempotent_witness:
  "find (webhook_filter (sample_webhook ''settlement'')) (payments (sample_world SETTLEMENT active))
     = Some (sample_payment\<lparr>status := SETTLEMENT\<rparr>)
   \<and> status (sample_payment\<lparr>status := SETTLEMENT\<rparr>)
     = mapMidtransStatus (transaction_status (sample_webhook ''settlement''))
         (fraud_status (sample_webhook ''settlement''))
   \<and> processWebhook no_fault 9 (sample_webhook ''settlement'') (sample_world SETTLEMENT active)
     = (sample_world SETTLEMENT active, Inr \<lparr>wr_success = True, wr_status = SETTLEMENT\<rparr>)"
  using processWebhook_idempotent
    [of no_fault 9 "sample_webhook ''settlement''" 9 "sample_world SETTLEMENT active"
        "sample_payment\<lparr>status := SETTLEMENT\<rparr>" 9]
  by (simp add: sample_defs webhook_filter_def mapMidtransStatus.simps)





text \<open>
  C9, as amended. The claim says that a mapped status of SETTLEMENT or CAPTURE sets the
  linked Enrollment to active with progress 0 unconditionally. processWebhook first compares
  the stored Payment.status with the mapped status and returns at once when they are equal,
  so a redelivered notification never reaches the activation (see the counterexample
  below). What holds: when the Payment is found and its stored status differs from the
  mapped status, and the mapped status is SETTLEMENT or CAPTURE, the linked Enrollment, if
  it exists, becomes active with progress 0 whatever its status was: pending_payment,
  active, completed or cancelled.
\<close>

theorem processWebhook_activates_any_enrollment:
  "find (webhook_filter payload) (payments w) = Some p \<Longrightarrow>
   newStatus = mapMidtransStatus (transaction_status payload) (fraud_status payload) \<Longrightarrow>
   newStatus = SETTLEMENT \<or> newStatus = CAPTURE \<Longrightarrow>
   status p \<noteq> newStatus \<Longrightarrow>
   enrollments w (enrollmentId p) = Some e \<Longrightarrow>
   \<exists>w'. processWebhook no_fault now payload w = (w', Inr \<lparr>wr_success = True, wr_status = newStatus\<rparr>)
        \<and> enrollments w' = (enrollments w)(enrollmentId p \<mapsto>
                               e\<lparr>enrollment_status := active, progress := 0\<rparr>)"
  unfolding processWebhook_def processWebhook_try_def Let_def commitTransaction_def no_fault_def
  by auto


theorem processWebhook_activates_any_enrollment_witness:
  "find (webhook_filter (sample_webhook ''capture''\<lparr>fraud_status := Some ''accept''\<rparr>))
       (payments (sample_world SETTLEMENT completed))
     = Some (sample_payment\<lparr>status := SETTLEMENT\<rparr>)
   \<and> CAPTURE = mapMidtransStatus ''capture'' (Some ''accept'')
   \<and> status (sample_payment\<lparr>status := SETTLEMENT\<rparr>) \<noteq> CAPTURE
   \<and> enrollments (sample_world SETTLEMENT completed) ''E1'' = Some (sample_enrollment completed)
   \<and> (\<exists>w'. processWebhook no_fault 9 (sample_webhook ''capture''\<lparr>fraud_status := Some ''accept''\<rparr>)
               (sample_world SETTLEMENT completed)
             = (w', Inr \<lparr>wr_success = True, wr_status = CAPTURE\<rparr>)
          \<and> enrollments w' ''E1''
             = Some (sample_enrollment completed\<lparr>enrollment_status := active, progress := 0\<rparr>))"
proof -
  let ?pl = "sample_webhook ''capture''\<lparr>fraud_status := Some ''accept''\<rparr>"
  let ?w = "sample_world SETTLEMENT completed"
  let ?p = "sample_payment\<lparr>status := SETTLEMENT\<rparr>"
  have f: "find (webhook_filter ?pl) (payments ?w) = Some ?p"
    by (simp add: sample_defs webhook_filter_def)
  have m: "CAPTURE = mapMidtransStatus (transaction_status ?pl) (fraud_status ?pl)"
    by (simp add: sample_defs mapMidtransStatus.simps)
  have c: "CAPTURE = SETTLEMENT \<or> CAPTURE = CAPTURE" by simp
  have d: "status ?p \<noteq> CAPTURE" by simp
  have e: "enrollments ?w (enrollmentId ?p) = Some (sample_enrollment completed)"
    by (simp add: sample_defs)
  obtain w' where
    "processWebhook no_fault 9 ?pl ?w = (w', Inr \<lparr>wr_success = True, wr_status = CAPTURE\<rparr>)"
    "enrollments w' = (enrollments ?w)(enrollmentId ?p \<mapsto>
        sample_enrollment completed\<lparr>enrollment_status := active, progress := 0\<rparr>)"
    using processWebhook_activates_any_enrollment [OF f m c d e, of 9] by blast
  then have "\<exists>w'. processWebhook no_fault 9 ?pl ?w
             = (w', Inr \<lparr>wr_success = True, wr_status = CAPTURE\<rparr>)
          \<and> enrollments w' ''E1''
             = Some (sample_enrollment completed\<lparr>enrollment_status := active, progress := 0\<rparr>)"
    by (auto simp: sample_payment_def)
  then show ?thesis using f m d e by (simp add: sample_defs)
qed


text \<open>
  C9, the claim as stated fails: the Payment is already SETTLEMENT, its Enrollment is
  completed with progress 40, and the \<^verbatim>\<open>settlement\<close> notification is delivered again. The
  mapped status is SETTLEMENT, the call succeeds through the short-circuit, and the
  Enrollment is still completed with progress 40.
\<close>

theorem processWebhook_redelivery_keeps_completed_counterexample:
  "mapMidtransStatus (transaction_status (sample_webhook ''settlement''))
       (fraud_status (sample_webhook ''settlement'')) = SETTLEMENT
   \<and> processWebhook no_fault 9 (sample_webhook ''settlement'') (sample_world SETTLEMENT completed)
       = (sample_world SETTLEMENT completed, Inr \<lparr>wr_success = True, wr_status = SETTLEMENT\<rparr>)
   \<and> enrollments (fst (processWebhook no_fault 9 (sample_webhook ''settlement'')
                        (sample_world SETTLEMENT completed))) ''E1''
       = Some (sample_enrollment completed)
   \<and> enrollment_status (sample_enrollment completed) = completed
   \<and> progress (sample_enrollment completed) = 40
   \<and> sample_enrollment completed
       \<noteq> sample_enrollment completed\<lparr>enrollment_status := active, progress := 0\<rparr>"
  by (simp add: processWebhook_def processWebhook_try_def Let_def commitTransaction_def
      no_fault_def sample_defs webhook_filter_def mapMidtransStatus.simps)

section \<open>Properties of verifyPayment\<close>

lemma verify_filter_update [simp]:
  "verify_filter tid (p\<lparr>status := s\<rparr>) = verify_filter tid p"
  "verify_filter tid (p\<lparr>paymentMethod := m\<rparr>) = verify_filter tid p"
  "verify_filter tid (p\<lparr>paidAt := t\<rparr>) = verify_filter tid p"
  by (simp_all add: verify_filter_def)

lemma verifyPayment_unchanged_status:
  "find (verify_filter tid) (payments w) = Some p \<Longrightarrow>
   status p = mapMidtransStatus (transaction_status result) (fraud_status result) \<Longrightarrow>
   fst (verifyPayment fails now (Inr result) tid w)
     = w\<lparr>gateway_calls := gateway_calls w @ [GwStatus tid]\<rparr>"
  by (simp add: verifyPayment_def Let_def)

lemma verifyPayment_repeat_settled:
  "find (verify_filter tid) (payments v) = Some q \<Longrightarrow>
   status q = mapMidtransStatus (transaction_status result) (fraud_status result) \<Longrightarrow>
   verifyPayment_repeat fails (Inr result) tid nows v
     = v\<lparr>gateway_calls := gateway_calls v @ replicate (length nows) (GwStatus tid)\<rparr>"
proof (induction nows arbitrary: v)
  case Nil
  then show ?case by simp
next
  case (Cons now nows)
  let ?v2 = "v\<lparr>gateway_calls := gateway_calls v @ [GwStatus tid]\<rparr>"
  have step: "fst (verifyPayment fails now (Inr result) tid v) = ?v2"
    using verifyPayment_unchanged_status [OF Cons.prems] .
  have "find (verify_filter tid) (payments ?v2) = Some q" using Cons.prems(1) by simp
  from Cons.IH [OF this Cons.prems(2)] step show ?case
    by (simp add: replicate_append_same [symmetric] del: replicate_append_same)
qed

lemmas verify_eval = verifyPayment_def Let_def no_fault_def findByIdAndUpdate_def
  sample_defs sample_status_result_def verify_filter_def saveDocument_def str_or_def
  mapMidtransStatus.simps


text \<open>
  C5. verifyPayment on a transaction whose gateway status is \<^verbatim>\<open>settlement\<close>, for a Payment
  that is stored with another status and whose Enrollment is in pending_payment: the first
  call makes the Enrollment active with progress 0 and stores the Payment as SETTLEMENT.
  Every further call, however many follow, finds the stored status equal to the mapped one
  and writes nothing: after N more calls the Payments and Enrollments are those left by the
  first call, and the only trace of the calls is the N status queries sent to the gateway.
\<close>

theorem verifyPayment_settlement_once:
  assumes "transaction_status result = ''settlement''"
    and "find (verify_filter tid) (payments w) = Some p"
    and "status p \<noteq> SETTLEMENT"
    and "enrollments w (enrollmentId p) = Some e"
    and "enrollment_status e = pending_payment"
  shows "let w1 = fst (verifyPayment no_fault now (Inr result) tid w) in
           enrollments w1 = (enrollments w)(enrollmentId p \<mapsto>
                               e\<lparr>enrollment_status := active, progress := 0\<rparr>)
         \<and> (\<exists>q. find (verify_filter tid) (payments w1) = Some q \<and> status q = SETTLEMENT)
         \<and> verifyPayment_repeat no_fault (Inr result) tid nows w1
             = w1\<lparr>gateway_calls := gateway_calls w1 @ replicate (length nows) (GwStatus tid)\<rparr>"
proof -
  let ?w1 = "fst (verifyPayment no_fault now (Inr result) tid w)"
  have st: "mapMidtransStatus (transaction_status result) (fraud_status result) = SETTLEMENT"
    using assms(1) by (simp add: mapMidtransStatus.simps)
  have fp: "verify_filter tid p" using assms(2) by (auto simp: find_Some_iff)
  let ?p2 = "p\<lparr>status := SETTLEMENT,
               paymentMethod := str_or (payment_type result) (paymentMethod p),
               paidAt := Some (case settlement_time result of Some t \<Rightarrow> t | None \<Rightarrow> now)\<rparr>"
  have w1: "?w1 = w\<lparr>gateway_calls := gateway_calls w @ [GwStatus tid],
                     enrollments := (enrollments w)(enrollmentId p \<mapsto>
                               e\<lparr>enrollment_status := active, progress := 0\<rparr>),
                     payments := saveDocument (verify_filter tid) ?p2 (payments w)\<rparr>"
    using assms(2-4) st
    by (simp add: verifyPayment_def Let_def no_fault_def findByIdAndUpdate_def)
  have f1: "find (verify_filter tid) (payments ?w1) = Some ?p2"
    using find_saveDocument [OF assms(2), of ?p2] fp by (simp add: w1)
  have s1: "status ?p2 = mapMidtransStatus (transaction_status result) (fraud_status result)"
    using st by simp
  have rep: "verifyPayment_repeat no_fault (Inr result) tid nows ?w1
             = ?w1\<lparr>gateway_calls := gateway_calls ?w1 @ replicate (length nows) (GwStatus tid)\<rparr>"
    using verifyPayment_repeat_settled [OF f1 s1] .
  have en: "enrollments ?w1 = (enrollments w)(enrollmentId p \<mapsto>
                               e\<lparr>enrollment_status := active, progress := 0\<rparr>)"
    by (simp add: w1)
  have "\<exists>q. find (verify_filter tid) (payments ?w1) = Some q \<and> status q = SETTLEMENT"
    using f1 by simp
  with en rep show ?thesis unfolding Let_def by blast
qed


theorem verifyPayment_settlement_once_witness:
  "transaction_status (sample_status_result ''settlement'') = ''settlement''
   \<and> find (verify_filter ''T1'') (payments (sample_world PENDING pending_payment))
       = Some sample_payment
   \<and> status sample_payment \<noteq> SETTLEMENT
   \<and> enrollments (sample_world PENDING pending_payment) (enrollmentId sample_payment)
       = Some (sample_enrollment pending_payment)
   \<and> enrollment_status (sample_enrollment pending_payment) = pending_payment
   \<and> (let w1 = fst (verifyPayment no_fault 9 (Inr (sample_status_result ''settlement'')) ''T1''
                     (sample_world PENDING pending_payment)) in
        enrollments w1 ''E1'' = Some (sample_enrollment active\<lparr>progress := 0\<rparr>)
      \<and> verifyPayment_repeat no_fault (Inr (sample_status_result ''settlement'')) ''T1''
            [10, 11, 12] w1
          = w1\<lparr>gateway_calls := gateway_calls w1 @ [GwStatus ''T1'', GwStatus ''T1'', GwStatus ''T1'']\<rparr>)"
proof -
  let ?w = "sample_world PENDING pending_payment"
  let ?r = "sample_status_result ''settlement''"
  have a: "transaction_status ?r = ''settlement''" by (simp add: sample_status_result_def)
  have b: "find (verify_filter ''T1'') (payments ?w) = Some sample_payment"
    by (simp add: sample_defs verify_filter_def)
  have c: "status sample_payment \<noteq> SETTLEMENT" by (simp add: sample_defs)
  have d: "enrollments ?w (enrollmentId sample_payment) = Some (sample_enrollment pending_payment)"
    by (simp add: sample_defs)
  have e: "enrollment_status (sample_enrollment pending_payment) = pending_payment"
    by (simp add: sample_defs)
  show ?thesis
    using verifyPayment_settlement_once [OF a b c d e, of 9 "[10, 11, 12]"] a b c d e
    by (simp add: Let_def sample_defs)
qed


text \<open>
  C1. The claim is that a status update mapping to CANCEL or EXPIRE cancels the linked
  Enrollment only if it is in pending_payment, through verifyPayment as well as through
  processWebhook. An enrollment paid by a first Payment is active; a second Payment for it is
  still PENDING and the gateway reports it expired. verifyPayment on the second Payment
  moves the active Enrollment to cancelled; processWebhook on the same data leaves it
  active.
\<close>

theorem verifyPayment_cancels_active_enrollment:
  "enrollments (fst (verifyPayment no_fault 9 (Inr (sample_status_result ''expire'')) ''T1''
                      (sample_world_two_payments active))) ''E1''
     = Some (sample_enrollment cancelled)
   \<and> enrollments (fst (processWebhook no_fault 9 (sample_webhook ''expire'')
                      (sample_world_two_payments active))) ''E1''
     = Some (sample_enrollment active)"
  by (simp add: verify_eval sample_world_two_payments_def processWebhook_def
      processWebhook_try_def commitTransaction_def webhook_filter_def)


text \<open>
  C4. The claim is that a coordinator operation failing partway leaves the Payment and its
  Enrollment in their prior status. verifyPayment on a settled transaction writes the
  Enrollment first and saves the Payment afterwards, without a session: when saving the
  Payment fails, the call ends in an error, the Payment is still PENDING and the Enrollment
  is already active with progress 0.
\<close>

theorem verifyPayment_partial_write_on_failure:
  "verifyPayment (\<lambda>op. op = SavePayment) 9 (Inr (sample_status_result ''settlement'')) ''T1''
       (sample_world PENDING pending_payment)
     = (\<lparr>payments = [sample_payment],
         enrollments = [''E1'' \<mapsto> sample_enrollment active\<lparr>progress := 0\<rparr>],
         gateway_calls = [GwStatus ''T1'']\<rparr>,
        Inl StoreError)"
  by (simp add: verify_eval)


section \<open>Properties of cancelTransaction, expireTransaction and refundTransaction\<close>

text \<open>
  The three operations write at most one Payment document and never an Enrollment; when a
  call ends in an error, nothing was written.
\<close>

lemma admin_operations_failure_keeps_store:
  "cancelTransaction fails reply tid w = (w', Inl e) \<Longrightarrow>
     payments w' = payments w \<and> enrollments w' = enrollments w"
  "expireTransaction fails reply tid w = (w', Inl e) \<Longrightarrow>
     payments w' = payments w \<and> enrollments w' = enrollments w"
  "refundTransaction fails now reply' tid amt reason w = (w', Inl e) \<Longrightarrow>
     payments w' = payments w \<and> enrollments w' = enrollments w"
  by (auto simp: cancelTransaction_def expireTransaction_def refundTransaction_def Let_def
      split: sum.splits if_splits)

lemma admin_operations_keep_enrollments:
  "enrollments (fst (cancelTransaction fails reply tid w)) = enrollments w"
  "enrollments (fst (expireTransaction fails reply tid w)) = enrollments w"
  "enrollments (fst (refundTransaction fails now reply' tid amt reason w)) = enrollments w"
  by (auto simp: cancelTransaction_def expireTransaction_def refundTransaction_def Let_def
      split: sum.splits if_splits)

text \<open>
  C10. cancelTransaction, expireTransaction and refundTransaction select the local Payment
  by transactionId alone. For an argument that is the transactionId of no Payment (it may
  be the orderId of one), with the gateway accepting the operation and the update not
  failing, the gateway operation is performed, the call returns normally, and every
  Payment and Enrollment is as before.
\<close>

theorem admin_operations_unknown_transaction:
  "\<forall>p \<in> set (payments w). transactionId p \<noteq> tid \<Longrightarrow> \<not> fails UpdatePayment \<Longrightarrow>
   cancelTransaction fails (Inr ()) tid w
     = (w\<lparr>gateway_calls := gateway_calls w @ [GwCancel tid]\<rparr>, Inr ())
   \<and> expireTransaction fails (Inr ()) tid w
     = (w\<lparr>gateway_calls := gateway_calls w @ [GwExpire tid]\<rparr>, Inr ())
   \<and> refundTransaction fails now (Inr result) tid amt reason w
     = (w\<lparr>gateway_calls := gateway_calls w @
            [GwRefund tid
               (if truthy_amount amt
                then Some (''refund-'' @ tid @ ''-'' @ string_of_nat now) else None)
               (if truthy_amount amt then amt else None)
               (if truthy_string reason then reason else None)]\<rparr>,
        Inr result)"
proof -
  assume "\<forall>p \<in> set (payments w). transactionId p \<noteq> tid" and nf: "\<not> fails UpdatePayment"
  then have "find (\<lambda>p. transactionId p = tid) (payments w) = None"
    by (simp add: find_None_iff)
  then have same: "findOneAndUpdate (\<lambda>p. transactionId p = tid) f (payments w) = payments w" for f
    by (rule findOneAndUpdate_no_match)
  show ?thesis
    using nf same
    by (simp add: cancelTransaction_def expireTransaction_def refundTransaction_def Let_def)
qed

theorem admin_operations_unknown_transaction_witness:
  "payments (sample_world PENDING pending_payment) = [sample_payment]
   \<and> transactionId sample_payment \<noteq> ''U1-5'' \<and> orderId sample_payment = ''U1-5''
   \<and> \<not> no_fault UpdatePayment
   \<and> cancelTransaction no_fault (Inr ()) ''U1-5'' (sample_world PENDING pending_payment)
     = (sample_world PENDING pending_payment\<lparr>gateway_calls := [GwCancel ''U1-5'']\<rparr>, Inr ())
   \<and> expireTransaction no_fault (Inr ()) ''U1-5'' (sample_world PENDING pending_payment)
     = (sample_world PENDING pending_payment\<lparr>gateway_calls := [GwExpire ''U1-5'']\<rparr>, Inr ())
   \<and> refundTransaction no_fault 7 (Inr ()) ''U1-5'' None None (sample_world PENDING pending_payment)
     = (sample_world PENDING pending_payment\<lparr>gateway_calls := [GwRefund ''U1-5'' None None None]\<rparr>,
        Inr ())"
proof -
  have a: "\<forall>p \<in> set (payments (sample_world PENDING pending_payment)). transactionId p \<noteq> ''U1-5''"
    by (simp add: sample_defs)
  have b: "\<not> no_fault UpdatePayment" by (simp add: no_fault_def)
  show ?thesis
    using admin_operations_unknown_transaction
      [where w = "sample_world PENDING pending_payment" and tid = "''U1-5''"
         and fails = no_fault and now = 7 and result = "()" and amt = None and reason = None]
      a b
    by (simp add: truthy_amount_def truthy_string_def sample_defs)
qed



section \<open>Properties of createTransaction\<close>

text \<open>The amount validator accepts exactly the amounts \<^verbatim>\<open>isPaymentEligible\<close> accepts.\<close>

lemma validateAmount_isPaymentEligible:
  "av_valid (validateAmount a) = isPaymentEligible a"
  by (simp add: validateAmount_def isPaymentEligible_def)

text \<open>
  C6. createTransaction rejects with a ValidationError every request whose amount is below
  1000 or above 999999999, or whose metadata is absent or has no enrollmentId. On such a
  rejection the state is the one before the call: no Payment is created and the gateway is
  not called.
\<close>

theorem createTransaction_rejects_invalid:
  "rq_amount request < 1000 \<or> rq_amount request > 999999999
     \<or> rq_metadata request = None
     \<or> (\<exists>m. rq_metadata request = Some m \<and> md_enrollmentId m = None) \<Longrightarrow>
   \<exists>msg. createTransaction fails validation uuid now_order now_expiry now_created reply request w
          = (w, Inl (ValidationError msg))"
  unfolding createTransaction_def createTransaction_try_def Let_def validateAmount_def
    truthy_string_def
  by auto

theorem createTransaction_rejects_invalid_witness:
  "(rq_amount (sample_request 500) < 1000 \<or> rq_amount (sample_request 500) > 999999999
     \<or> rq_metadata (sample_request 500) = None
     \<or> (\<exists>m. rq_metadata (sample_request 500) = Some m \<and> md_enrollmentId m = None))
   \<and> createTransaction no_fault sample_validation ''T2'' 7 7 8 (Inr sample_snap_result)
        (sample_request 500) (sample_world PENDING pending_payment)
      = (sample_world PENDING pending_payment, Inl (ValidationError ''Invalid amount''))"
proof -
  have a: "rq_amount (sample_request 500) < 1000 \<or> rq_amount (sample_request 500) > 999999999
     \<or> rq_metadata (sample_request 500) = None
     \<or> (\<exists>m. rq_metadata (sample_request 500) = Some m \<and> md_enrollmentId m = None)"
    by (simp add: sample_request_def)
  obtain msg where m: "createTransaction no_fault sample_validation ''T2'' 7 7 8
        (Inr sample_snap_result) (sample_request 500) (sample_world PENDING pending_payment)
      = (sample_world PENDING pending_payment, Inl (ValidationError msg))"
    using createTransaction_rejects_invalid [OF a] by blast
  have "createTransaction no_fault sample_validation ''T2'' 7 7 8
        (Inr sample_snap_result) (sample_request 500) (sample_world PENDING pending_payment)
      = (sample_world PENDING pending_payment, Inl (ValidationError ''Invalid amount''))"
    using m
    by (simp add: createTransaction_def createTransaction_try_def Let_def validateAmount_def
        sample_request_def sample_validation_def str_or_def)
  with a show ?thesis by blast
qed


text \<open>
  C7. When createTransaction succeeds, the Payment collection is the old one followed by
  exactly one new Payment; the new Payment has status PENDING and carries the transactionId
  and orderId that are returned; no Payment stored before has the same transactionId or the
  same orderId, so identifiers that were pairwise distinct stay so; and the returned
  expiresAt is the clock reading taken when the transaction is created plus one hour
  (3600000 ms).
\<close>

theorem createTransaction_creates_one_pending_payment:
  "createTransaction fails validation uuid now_order now_expiry now_created reply request w
     = (w', Inr resp) \<Longrightarrow>
   (\<exists>p. payments w' = payments w @ [p]
        \<and> status p = PENDING
        \<and> transactionId p = uuid \<and> cp_transactionId resp = uuid
        \<and> orderId p = rq_userId request @ ''-'' @ string_of_nat now_order
        \<and> cp_orderId resp = orderId p
        \<and> (\<forall>q \<in> set (payments w). transactionId q \<noteq> transactionId p \<and> orderId q \<noteq> orderId p))
   \<and> (distinct (map transactionId (payments w)) \<longrightarrow> distinct (map transactionId (payments w')))
   \<and> (distinct (map orderId (payments w)) \<longrightarrow> distinct (map orderId (payments w')))
   \<and> enrollments w' = enrollments w
   \<and> cp_expiresAt resp = now_expiry + 3600000"
  unfolding createTransaction_def createTransaction_try_def Let_def insertPayment_def
    commitTransaction_def
  by (auto split: if_splits sum.splits prod.splits simp: list_ex_iff) blast


theorem createTransaction_creates_one_pending_payment_witness:
  "createTransaction no_fault sample_validation ''T2'' 7 7 8 (Inr sample_snap_result)
        (sample_request 150000) (sample_world PENDING pending_payment)
     = (sample_world PENDING pending_payment
          \<lparr>gateway_calls := [GwCreateTransaction ''U1-7'' 150000],
           payments := [sample_payment,
                        \<lparr>transactionId = ''T2'', orderId = ''U1-7'', userId = ''U1'',
                         enrollmentId = ''E1'', amount = 150000, status = PENDING,
                         paymentMethod = ''unknown'', midtransToken = None,
                         redirectUrl = Some ''https://pay/T2'', createdAt = 8,
                         paidAt = None\<rparr>]\<rparr>,
        Inr \<lparr>cp_success = True, cp_transactionId = ''T2'', cp_orderId = ''U1-7'',
             cp_amount = 150000, cp_snapToken = ''tok'', cp_redirectUrl = ''https://pay/T2'',
             cp_expiresAt = 3600007,
             cp_message = ''Payment transaction created successfully''\<rparr>)
   \<and> transactionId sample_payment \<noteq> ''T2'' \<and> orderId sample_payment \<noteq> ''U1-7''"
proof -
  have run: "createTransaction no_fault sample_validation ''T2'' 7 7 8 (Inr sample_snap_result)
        (sample_request 150000) (sample_world PENDING pending_payment)
     = (sample_world PENDING pending_payment
          \<lparr>gateway_calls := [GwCreateTransaction ''U1-7'' 150000],
           payments := [sample_payment,
                        \<lparr>transactionId = ''T2'', orderId = ''U1-7'', userId = ''U1'',
                         enrollmentId = ''E1'', amount = 150000, status = PENDING,
                         paymentMethod = ''unknown'', midtransToken = None,
                         redirectUrl = Some ''https://pay/T2'', createdAt = 8,
                         paidAt = None\<rparr>]\<rparr>,
        Inr \<lparr>cp_success = True, cp_transactionId = ''T2'', cp_orderId = ''U1-7'',
             cp_amount = 150000, cp_snapToken = ''tok'', cp_redirectUrl = ''https://pay/T2'',
             cp_expiresAt = 3600007,
             cp_message = ''Payment transaction created successfully''\<rparr>)"
    by (simp add: createTransaction_def createTransaction_try_def Let_def validateAmount_def
        insertPayment_def commitTransaction_def no_fault_def truthy_string_def
        string_of_nat.simps sample_defs sample_request_def sample_validation_def
        sample_snap_result_def)
  show ?thesis
    using run createTransaction_creates_one_pending_payment [OF run]
    by (simp add: sample_defs string_of_nat.simps)
qed


end
